theory Spec2Isabelle
  imports Complex_Main "HOL-Library.Sublist"
begin

section \<open>Block ingestion: the data model\<close>

text \<open>
  The embedding follows \<^verbatim>\<open>BlockUpdater\<close> (class \<^verbatim>\<open>BlockUpdater extends DBUpdater\<close>).
  Field names carry a short prefix because several source types share names
  (\<^verbatim>\<open>hash\<close>, \<^verbatim>\<open>size\<close>, \<^verbatim>\<open>id\<close>): \<open>a_\<close> an asset descriptor, \<open>c_\<close> a contract, \<open>t_\<close> a
  transaction of a block, \<open>b_\<close> the client's \<^verbatim>\<open>Block\<close>, \<open>m_\<close> a row of the block table
  (\<^verbatim>\<open>BlockModel\<close>).

  A \<^verbatim>\<open>BigNumber\<close> is an exact decimal; it is embedded as a rational number. A column that
  holds the result of \<^verbatim>\<open>toFixed(8)\<close> is a decimal string with exactly eight fractional
  digits; such a string and the number it denotes determine each other, so the column is
  embedded as that number, and \<^verbatim>\<open>new BigNumber(column)\<close> is the identity.
\<close>

record asset =
  a_type :: string
  a_name :: string
  a_amount :: rat
  a_precision :: rat
  a_owner :: string
  a_admin :: string

record contract =
  c_hash :: string
  c_script :: string
  c_parameters :: "string list"
  c_returnType :: string
  c_storage :: bool
  c_name :: string
  c_codeVersion :: string
  c_author :: string
  c_email :: string
  c_description :: string

datatype tx_type =
  RegisterTransaction asset
  | InvocationTransaction "asset option" "contract list"
  | PublishTransaction contract
  | OtherTransaction

record transaction =
  t_txid :: string
  t_globalIndex :: rat
  t_systemFee :: rat
  t_networkFee :: rat
  t_type :: tx_type

record block =
  b_index :: int
  b_hash :: string
  b_previousBlockHash :: string
  b_size :: int
  b_version :: int
  b_merkleRoot :: string
  b_time :: int
  b_nonce :: string
  b_nextConsensus :: string
  b_script_invocation :: string
  b_script_verification :: string
  b_transactions :: "transaction list"

record block_model =
  m_id :: int
  m_hash :: string
  m_size :: int
  m_version :: int
  m_merkle_root :: string
  m_time :: int
  m_nonce :: string
  m_next_validator_address_id :: string
  m_invocation_script :: string
  m_verification_script :: string
  m_transaction_count :: int
  m_system_fee :: rat
  m_network_fee :: rat
  m_aggregated_system_fee :: rat
  m_previous_block_id :: "int option"
  m_previous_block_hash :: "string option"
  m_validator_address_id :: "string option"

datatype error =
  UniqueViolation
  | StorageError string
  | NotFoundError
  | ClientError string

text \<open>
  The storage behind \<^verbatim>\<open>context.db\<close> and \<^verbatim>\<open>context.systemFee\<close>, as far as this updater
  writes it: the rows of the block table in insertion order, the system-fee ledger
  (index, value), the processed-index cursor, and a storage failure that the next
  insert will report (\<open>None\<close>: the storage is healthy).
\<close>

record store =
  blocks :: "block_model list"
  fee_ledger :: "(int \<times> rat) list"
  processed_index :: int
  insert_fault :: "string option"

text \<open>
  A bound token contract (\<^verbatim>\<open>ReadSmartContract\<close>): the hash and the interface descriptor it
  was bound with.
\<close>

record smart_contract =
  sc_hash :: string
  sc_abi :: string

text \<open>
  The node client: the blocks it serves to \<^verbatim>\<open>getBlock\<close>, and the outcome of each external
  query about a contract, by the hash the query is made with.
\<close>

record client =
  client_blocks :: "block list"
  abi_NEP5 :: "string \<Rightarrow> error + string"
  nep5_name :: "string \<Rightarrow> error + string"
  nep5_symbol :: "string \<Rightarrow> error + string"
  nep5_decimals :: "string \<Rightarrow> error + rat"
  nep5_totalSupply :: "string \<Rightarrow> error + rat"

text \<open>
  The \<^verbatim>\<open>Context\<close>: the storage, the node client, the current height, the last committed
  row, the cache of bound token contracts and the blacklist.
\<close>

record "context" =
  db :: store
  client :: client
  currentHeight :: int
  prevBlock :: "block_model option"
  nep5Contracts :: "string \<rightharpoonup> smart_contract"
  blacklistNEP5Hashes :: "string set"

section \<open>Decimal arithmetic\<close>

text \<open>
  \<^verbatim>\<open>BigNumber.prototype.toFixed(8)\<close> under the library's default rounding mode
  (\<^verbatim>\<open>ROUND_HALF_UP\<close>: to the nearest neighbour, a tie away from zero).
\<close>

definition toFixed8 :: "rat \<Rightarrow> rat" where
  "toFixed8 x =
     (if 0 \<le> x then of_int \<lfloor>x * 100000000 + 1 / 2\<rfloor> / 100000000
      else - (of_int \<lfloor>- x * 100000000 + 1 / 2\<rfloor> / 100000000))"

text \<open>A decimal with at most eight fractional digits (the chain's fixed-point fee type).\<close>

definition fixed8 :: "rat \<Rightarrow> bool" where
  "fixed8 x \<longleftrightarrow> of_int \<lfloor>x * 100000000\<rfloor> = x * 100000000"

text \<open>
  \<^verbatim>\<open>block.transactions.reduce((sysFee, transaction) => sysFee.plus(new BigNumber(transaction.systemFee)), ZERO)\<close>
  and its network-fee twin.
\<close>

definition systemFee_of :: "block \<Rightarrow> rat" where
  "systemFee_of b = foldl (\<lambda>sysFee t. sysFee + t_systemFee t) 0 (b_transactions b)"

definition networkFee_of :: "block \<Rightarrow> rat" where
  "networkFee_of b = foldl (\<lambda>networkFee t. networkFee + t_networkFee t) 0 (b_transactions b)"

section \<open>Storage and helper operations\<close>

text \<open>
  Modelled from the spec: the storage engine is an external collaborator. A read of the
  block table by primary key (\<^verbatim>\<open>.where('id', i).first()\<close>, \<^verbatim>\<open>.findById(i)\<close>).
\<close>

definition findById :: "store \<Rightarrow> int \<Rightarrow> block_model option" where
  "findById d i = find (\<lambda>r. m_id r = i) (blocks d)"

text \<open>
  Modelled from the spec: \<^verbatim>\<open>BlockModel.insertAndReturn\<close>. The primary key is unique: an
  insert at a committed index reports a uniqueness violation; any other storage failure
  is reported as it is; otherwise the row is stored and returned.
\<close>

definition insertAndReturn :: "store \<Rightarrow> block_model \<Rightarrow> error + (block_model \<times> store)" where
  "insertAndReturn d row =
     (case insert_fault d of
        Some msg \<Rightarrow> Inl (StorageError msg)
      | None \<Rightarrow>
          (if findById d (m_id row) \<noteq> None then Inl UniqueViolation
           else Inr (row, d\<lparr>blocks := blocks d @ [row]\<rparr>)))"

text \<open>
  Modelled from the spec: \<^verbatim>\<open>isUniqueError\<close>, the uniqueness-violation signal
  distinguishable from other storage errors.
\<close>

definition isUniqueError :: "error \<Rightarrow> bool" where
  "isUniqueError e \<longleftrightarrow> e = UniqueViolation"

text \<open>Modelled from the spec: \<^verbatim>\<open>blockModel.$query(db).delete()\<close> removes the row of that key.\<close>

definition deleteRow :: "store \<Rightarrow> block_model \<Rightarrow> store" where
  "deleteRow d row = d\<lparr>blocks := filter (\<lambda>r. m_id r \<noteq> m_id row) (blocks d)\<rparr>"

text \<open>
  Modelled from the spec: \<^verbatim>\<open>context.systemFee.save\<close> appends the ledger entry
  index \<open>\<mapsto>\<close> aggregated fee.
\<close>

definition systemFee_save :: "store \<Rightarrow> int \<Rightarrow> rat \<Rightarrow> store" where
  "systemFee_save d i v = d\<lparr>fee_ledger := fee_ledger d @ [(i, v)]\<rparr>"

text \<open>
  Modelled from the spec: \<^verbatim>\<open>context.systemFee.revert\<close> removes the ledger entry of an
  index.
\<close>

definition systemFee_revert :: "store \<Rightarrow> int \<Rightarrow> store" where
  "systemFee_revert d i = d\<lparr>fee_ledger := filter (\<lambda>e. fst e \<noteq> i) (fee_ledger d)\<rparr>"

text \<open>
  Modelled from the spec: \<^verbatim>\<open>ProcessedIndexUpdater.save\<close> advances the durable cursor to
  the block's index.
\<close>

definition processedIndex_save :: "store \<Rightarrow> int \<Rightarrow> store" where
  "processedIndex_save d i = d\<lparr>processed_index := i\<rparr>"

text \<open>
  Modelled from the spec: \<^verbatim>\<open>ProcessedIndexUpdater.revert\<close> rolls the cursor back below the
  reverted index.
\<close>

definition processedIndex_revert :: "store \<Rightarrow> int \<Rightarrow> store" where
  "processedIndex_revert d i = d\<lparr>processed_index := i - 1\<rparr>"

text \<open>
  Modelled from the spec: \<^verbatim>\<open>getCurrentHeight\<close> is the current projection height held by
  the context (\<open>-1\<close> when nothing is committed).
\<close>

definition getCurrentHeight :: "context \<Rightarrow> int" where
  "getCurrentHeight ctx = currentHeight ctx"

text \<open>
  Modelled from the spec: \<^verbatim>\<open>getPreviousBlockModel(context, monitor, index)\<close> is the
  committed row previous to \<open>index\<close>, that is the one at \<open>index - 1\<close>, or undefined.
  \<^verbatim>\<open>save\<close> calls it with \<^verbatim>\<open>block.index\<close> and compares the result's hash with
  \<^verbatim>\<open>block.previousBlockHash\<close>.
\<close>

definition getPreviousBlockModel :: "context \<Rightarrow> int \<Rightarrow> block_model option" where
  "getPreviousBlockModel ctx i = findById (db ctx) (i - 1)"

text \<open>Modelled from the spec: \<^verbatim>\<open>context.client.getBlock(height)\<close>; the call can fail.\<close>

definition getBlock :: "context \<Rightarrow> int \<Rightarrow> error + block" where
  "getBlock ctx h =
     (case find (\<lambda>b. b_index b = h) (client_blocks (client ctx)) of
        None \<Rightarrow> Inl (ClientError ''getBlock'')
      | Some b \<Rightarrow> Inr b)"

section \<open>The block updater\<close>

text \<open>
  \<^verbatim>\<open>BlockUpdater.revert\<close>. The address, transaction and previous-block updaters write
  tables of their own, outside this state. The row is deleted, the cursor rolled back,
  and the context is rebuilt from \<^verbatim>\<open>getPreviousBlockModel(context, monitor, blockModel.id - 1)\<close>.
\<close>

definition revert :: "context \<Rightarrow> block_model \<Rightarrow> context" where
  "revert ctx blockModel =
     (let d1 = systemFee_revert (db ctx) (m_id blockModel);
          d2 = deleteRow d1 blockModel;
          d3 = processedIndex_revert d2 (m_id blockModel);
          ctx' = ctx\<lparr>db := d3\<rparr>;
          prevPrevBlockModel = getPreviousBlockModel ctx' (m_id blockModel - 1)
      in ctx'\<lparr>prevBlock := prevPrevBlockModel,
              currentHeight := (case prevPrevBlockModel of None \<Rightarrow> - 1 | Some p \<Rightarrow> m_id p)\<rparr>)"

text \<open>The row that \<^verbatim>\<open>save\<close> hands to \<^verbatim>\<open>insertAndReturn\<close>.\<close>

definition aggregatedSystemFee_of :: "block_model option \<Rightarrow> block \<Rightarrow> rat" where
  "aggregatedSystemFee_of prevBlockModel b =
     (case prevBlockModel of
        None \<Rightarrow> systemFee_of b
      | Some p \<Rightarrow> m_aggregated_system_fee p + systemFee_of b)"

definition newRow :: "block_model option \<Rightarrow> block \<Rightarrow> block_model" where
  "newRow prevBlockModel b =
     \<lparr> m_id = b_index b,
       m_hash = b_hash b,
       m_size = b_size b,
       m_version = b_version b,
       m_merkle_root = b_merkleRoot b,
       m_time = b_time b,
       m_nonce = b_nonce b,
       m_next_validator_address_id = b_nextConsensus b,
       m_invocation_script = b_script_invocation b,
       m_verification_script = b_script_verification b,
       m_transaction_count = int (length (b_transactions b)),
       m_system_fee = toFixed8 (systemFee_of b),
       m_network_fee = toFixed8 (networkFee_of b),
       m_aggregated_system_fee = toFixed8 (aggregatedSystemFee_of prevBlockModel b),
       m_previous_block_id = map_option m_id prevBlockModel,
       m_previous_block_hash = map_option m_hash prevBlockModel,
       m_validator_address_id = map_option m_next_validator_address_id prevBlockModel \<rparr>"

text \<open>
  The append branch of \<^verbatim>\<open>save\<close>: the insert with its \<^verbatim>\<open>catch\<close> (a uniqueness violation
  re-reads the row, \<^verbatim>\<open>throwIfNotFound\<close>), the ledger entry, the cursor, the new context.
  The transaction, address and previous-block updaters that run beside the insert write
  tables of their own and hand the context on.
\<close>

definition append :: "context \<Rightarrow> block_model option \<Rightarrow> block \<Rightarrow> error + context" where
  "append ctx prevBlockModel b =
     (let inserted =
            (case insertAndReturn (db ctx) (newRow prevBlockModel b) of
               Inl e \<Rightarrow>
                 (if isUniqueError e then
                    (case findById (db ctx) (b_index b) of
                       None \<Rightarrow> Inl NotFoundError
                     | Some r \<Rightarrow> Inr (r, db ctx))
                  else Inl e)
             | Inr res \<Rightarrow> Inr res)
      in case inserted of
           Inl e \<Rightarrow> Inl e
         | Inr (blockModel, d1) \<Rightarrow>
             (let d2 = systemFee_save d1 (b_index b) (toFixed8 (aggregatedSystemFee_of prevBlockModel b));
                  d3 = processedIndex_save d2 (b_index b)
              in Inr (ctx\<lparr>db := d3, prevBlock := Some blockModel, currentHeight := m_id blockModel\<rparr>)))"

text \<open>
  \<^verbatim>\<open>BlockUpdater.save\<close>. Each recursive call follows a \<^verbatim>\<open>revert\<close> of a committed row, so
  the block table shrinks and the recursion ends.
\<close>

function save :: "context \<Rightarrow> block \<Rightarrow> error + context" where
  "save ctx b =
     (if b_index b = getCurrentHeight ctx + 1 then
        (case getPreviousBlockModel ctx (b_index b) of
           None \<Rightarrow> append ctx None b
         | Some p \<Rightarrow>
             if b_previousBlockHash b = m_hash p then append ctx (Some p) b
             else (case getBlock ctx (getCurrentHeight ctx) of
                     Inl e \<Rightarrow> Inl e
                   | Inr prevBlock' \<Rightarrow> save (revert ctx p) prevBlock'))
      else if b_index b = getCurrentHeight ctx then
        (case findById (db ctx) (b_index b) of
           None \<Rightarrow> Inl NotFoundError
         | Some blockModel \<Rightarrow>
             if b_hash b \<noteq> m_hash blockModel then save (revert ctx blockModel) b
             else Inr ctx)
      else Inr ctx)"
  by pat_completeness auto
termination
proof (relation "measure (\<lambda>(ctx, b). length (blocks (db ctx)))")
  have shrink: "length (blocks (db (revert ctx r))) < length (blocks (db ctx))"
    if "findById (db ctx) i = Some r" for ctx i r
  proof -
    from that have "r \<in> set (blocks (db ctx))"
      by (auto simp: findById_def find_Some_iff)
    then have "length (filter (\<lambda>x. m_id x \<noteq> m_id r) (blocks (db ctx))) < length (blocks (db ctx))"
      by (intro length_filter_less[of r]) auto
    then show ?thesis
      by (simp add: revert_def Let_def deleteRow_def systemFee_revert_def processedIndex_revert_def)
  qed
  show "wf (measure (\<lambda>(ctx, b). length (blocks (db ctx))))"
    by simp
  show "((revert ctx p, prevBlock'), (ctx, b)) \<in> measure (\<lambda>(ctx, b). length (blocks (db ctx)))"
    if "getPreviousBlockModel ctx (b_index b) = Some p" for ctx b p prevBlock'
    using shrink[of ctx "b_index b - 1" p] that by (simp add: getPreviousBlockModel_def)
  show "((revert ctx blockModel, b), (ctx, b)) \<in> measure (\<lambda>(ctx, b). length (blocks (db ctx)))"
    if "findById (db ctx) (b_index b) = Some blockModel" for ctx b blockModel
    using shrink[of ctx "b_index b" blockModel] that by simp
qed

declare save.simps [simp del]

section \<open>Asset and contract extraction\<close>

text \<open>
  Rows of the asset and contract tables (\<^verbatim>\<open>Partial<AssetModel>\<close>, prefix \<open>am_\<close>;
  \<^verbatim>\<open>Partial<ContractModel>\<close>, prefix \<open>cm_\<close>). The two classification tags
  \<^verbatim>\<open>NEP5_CONTRACT_TYPE\<close> and \<^verbatim>\<open>UNKNOWN_CONTRACT_TYPE\<close> are constants of the database
  package; they are the two values of a datatype.
\<close>

datatype contract_type = NEP5_CONTRACT_TYPE | UNKNOWN_CONTRACT_TYPE

record asset_model =
  am_id :: string
  am_transaction_id :: string
  am_transaction_hash :: string
  am_type :: string
  am_name_raw :: string
  am_symbol :: string
  am_amount :: string
  am_precision :: rat
  am_owner :: "string option"
  am_admin_address_id :: "string option"
  am_block_time :: int
  am_issued :: string
  am_address_count :: string
  am_transfer_count :: string
  am_transaction_count :: string
  am_aggregate_block_id :: int

record contract_model =
  cm_id :: string
  cm_script :: string
  cm_parameters_raw :: string
  cm_return_type :: string
  cm_needs_storage :: bool
  cm_name :: string
  cm_version :: string
  cm_author :: string
  cm_email :: string
  cm_description :: string
  cm_transaction_id :: string
  cm_transaction_hash :: string
  cm_block_time :: int
  cm_block_id :: int
  cm_type :: contract_type

text \<open>
  Functions of the JavaScript runtime and of imported packages, taken as parameters:
  \<^verbatim>\<open>JSON.stringify\<close> on a string and on a list of strings, \<^verbatim>\<open>BigNumber.prototype.toString\<close>,
  \<^verbatim>\<open>BigNumber.prototype.toNumber\<close>, and \<^verbatim>\<open>add0x\<close>.
\<close>

record host =
  JSON_stringify :: "string \<Rightarrow> string"
  JSON_stringify_list :: "string list \<Rightarrow> string"
  toString :: "rat \<Rightarrow> string"
  toNumber :: "rat \<Rightarrow> rat"
  add0x :: "string \<Rightarrow> string"

text \<open>\<^verbatim>\<open>getAsset\<close>: the row of a registered asset, from the asset descriptor.\<close>

definition getAsset :: "host \<Rightarrow> transaction \<Rightarrow> int \<Rightarrow> asset_model option" where
  "getAsset h transaction blockTime =
     (let asset =
            (case t_type transaction of
               RegisterTransaction a \<Rightarrow> Some a
             | InvocationTransaction a cs \<Rightarrow> a
             | _ \<Rightarrow> None)
      in case asset of
           Some a \<Rightarrow>
             Some \<lparr> am_id = t_txid transaction,
                    am_transaction_id = toString h (t_globalIndex transaction),
                    am_transaction_hash = t_txid transaction,
                    am_type = a_type a,
                    am_name_raw = JSON_stringify h (a_name a),
                    am_symbol = JSON_stringify h (a_name a),
                    am_amount = toString h (a_amount a),
                    am_precision = a_precision a,
                    am_owner = Some (a_owner a),
                    am_admin_address_id = Some (a_admin a),
                    am_block_time = blockTime,
                    am_issued = ''0'',
                    am_address_count = ''0'',
                    am_transfer_count = ''0'',
                    am_transaction_count = ''0'',
                    am_aggregate_block_id = - 1 \<rparr>
         | None \<Rightarrow> None)"

text \<open>
  \<^verbatim>\<open>Buffer.from(attribute, 'utf8').toString('hex')\<close>: two lower-case hexadecimal digits
  for each byte.
\<close>

definition hexDigit :: "nat \<Rightarrow> char" where
  "hexDigit n = ''0123456789abcdef'' ! n"

definition toHex :: "string \<Rightarrow> string" where
  "toHex s = concat (map (\<lambda>c. [hexDigit (of_char c div 16), hexDigit (of_char c mod 16)]) s)"

definition NEP5_ATTRIBUTES :: "string list" where
  "NEP5_ATTRIBUTES =
     map toHex [''totalSupply'', ''name'', ''symbol'', ''decimals'', ''balanceOf'', ''transfer'']"

text \<open>\<^verbatim>\<open>String.prototype.includes\<close>: the argument occurs as a contiguous run of characters.\<close>

fun includes_str :: "string \<Rightarrow> string \<Rightarrow> bool" where
  "includes_str [] a = (a = [])"
| "includes_str (x # xs) a = (prefix a (x # xs) \<or> includes_str xs a)"

definition checkIsNEP5 :: "context \<Rightarrow> contract \<Rightarrow> bool" where
  "checkIsNEP5 ctx contract =
     (if c_hash contract \<in> blacklistNEP5Hashes ctx then False
      else list_all (\<lambda>attribute. includes_str (c_script contract) attribute) NEP5_ATTRIBUTES)"

record extraction =
  x_asset :: "asset_model option"
  x_contract :: contract_model
  x_nep5Contract :: "smart_contract option"

text \<open>
  \<^verbatim>\<open>getContractAndAsset\<close>. The four queries run concurrently under \<^verbatim>\<open>Promise.all\<close>; when
  several fail the model reports the first in the order of the array. The failure of
  \<^verbatim>\<open>totalSupply\<close> is caught and replaced by \<^verbatim>\<open>new BigNumber(0)\<close>.
\<close>

definition getContractAndAsset ::
  "host \<Rightarrow> context \<Rightarrow> transaction \<Rightarrow> contract \<Rightarrow> int \<Rightarrow> int \<Rightarrow> error + extraction" where
  "getContractAndAsset h ctx transaction contract blockIndex blockTime =
     (let isNEP5 = checkIsNEP5 ctx contract;
          contractModel =
            \<lparr> cm_id = c_hash contract,
              cm_script = c_script contract,
              cm_parameters_raw = JSON_stringify_list h (c_parameters contract),
              cm_return_type = c_returnType contract,
              cm_needs_storage = c_storage contract,
              cm_name = c_name contract,
              cm_version = c_codeVersion contract,
              cm_author = c_author contract,
              cm_email = c_email contract,
              cm_description = c_description contract,
              cm_transaction_id = toString h (t_globalIndex transaction),
              cm_transaction_hash = t_txid transaction,
              cm_block_time = blockTime,
              cm_block_id = blockIndex,
              cm_type = (if isNEP5 then NEP5_CONTRACT_TYPE else UNKNOWN_CONTRACT_TYPE) \<rparr>
      in if isNEP5 then
           (case abi_NEP5 (client ctx) (add0x h (cm_id contractModel)) of
              Inl e \<Rightarrow> Inl e
            | Inr contractABI \<Rightarrow>
                (let nep5Contract =
                       \<lparr> sc_hash = add0x h (cm_id contractModel), sc_abi = contractABI \<rparr>;
                     totalSupply =
                       (case nep5_totalSupply (client ctx) (sc_hash nep5Contract) of
                          Inl e \<Rightarrow> 0
                        | Inr v \<Rightarrow> v)
                 in case nep5_name (client ctx) (sc_hash nep5Contract) of
                      Inl e \<Rightarrow> Inl e
                    | Inr name \<Rightarrow>
                        (case nep5_symbol (client ctx) (sc_hash nep5Contract) of
                           Inl e \<Rightarrow> Inl e
                         | Inr symbol \<Rightarrow>
                             (case nep5_decimals (client ctx) (sc_hash nep5Contract) of
                                Inl e \<Rightarrow> Inl e
                              | Inr decimals \<Rightarrow>
                                  Inr \<lparr> x_asset =
                                          Some \<lparr> am_id = cm_id contractModel,
                                                 am_transaction_id = toString h (t_globalIndex transaction),
                                                 am_transaction_hash = t_txid transaction,
                                                 am_type = ''NEP5'',
                                                 am_name_raw = JSON_stringify h name,
                                                 am_symbol = symbol,
                                                 am_amount = toString h totalSupply,
                                                 am_precision = toNumber h decimals,
                                                 am_owner = None,
                                                 am_admin_address_id = None,
                                                 am_block_time = blockTime,
                                                 am_issued = ''0'',
                                                 am_address_count = ''0'',
                                                 am_transfer_count = ''0'',
                                                 am_transaction_count = ''0'',
                                                 am_aggregate_block_id = - 1 \<rparr>,
                                        x_contract = contractModel,
                                        x_nep5Contract = Some nep5Contract \<rparr>))))
         else Inr \<lparr> x_asset = None, x_contract = contractModel, x_nep5Contract = None \<rparr>)"

section \<open>Sequences of blocks and concrete chains\<close>

text \<open>
  The driving loop hands blocks to \<^verbatim>\<open>save\<close> one at a time, each call on the context the
  previous one returned, and stops at the first error.
\<close>

fun saveAll :: "context \<Rightarrow> block list \<Rightarrow> error + context" where
  "saveAll ctx [] = Inr ctx"
| "saveAll ctx (b # bs) = (case save ctx b of Inl e \<Rightarrow> Inl e | Inr ctx' \<Rightarrow> saveAll ctx' bs)"

text \<open>Indices that continue the height one by one, and previous-hash links that match.\<close>

fun contiguous :: "int \<Rightarrow> block list \<Rightarrow> bool" where
  "contiguous h [] = True"
| "contiguous h (b # bs) = (b_index b = h + 1 \<and> contiguous (h + 1) bs)"

fun linked :: "block list \<Rightarrow> bool" where
  "linked (b # c # bs) = (b_previousBlockHash c = b_hash b \<and> linked (c # bs))"
| "linked bs = True"

text \<open>
  Blocks and contexts for the examples: a block with the given index, hash, previous
  hash and transaction system fees; a client that serves the given blocks and answers
  no contract query; the context of an empty projection.
\<close>

definition mkBlock :: "int \<Rightarrow> string \<Rightarrow> string \<Rightarrow> rat list \<Rightarrow> block" where
  "mkBlock i h ph fees =
     \<lparr> b_index = i, b_hash = h, b_previousBlockHash = ph, b_size = 0, b_version = 0,
       b_merkleRoot = [], b_time = 0, b_nonce = [], b_nextConsensus = [],
       b_script_invocation = [], b_script_verification = [],
       b_transactions =
         map (\<lambda>f. \<lparr> t_txid = [], t_globalIndex = 0, t_systemFee = f, t_networkFee = 0,
                     t_type = OtherTransaction \<rparr>) fees \<rparr>"

definition mkClient :: "block list \<Rightarrow> client" where
  "mkClient bs =
     \<lparr> client_blocks = bs,
       abi_NEP5 = (\<lambda>h. Inl (ClientError ''abi'')),
       nep5_name = (\<lambda>h. Inl (ClientError ''name'')),
       nep5_symbol = (\<lambda>h. Inl (ClientError ''symbol'')),
       nep5_decimals = (\<lambda>h. Inl (ClientError ''decimals'')),
       nep5_totalSupply = (\<lambda>h. Inl (ClientError ''totalSupply'')) \<rparr>"

definition emptyContext :: "block list \<Rightarrow> context" where
  "emptyContext bs =
     \<lparr> db = \<lparr> blocks = [], fee_ledger = [], processed_index = - 1, insert_fault = None \<rparr>,
       client = mkClient bs,
       currentHeight = - 1,
       prevBlock = None,
       nep5Contracts = Map.empty,
       blacklistNEP5Hashes = {} \<rparr>"

text \<open>
  The append branch of \<^verbatim>\<open>save\<close> is taken: the index continues the height, and no previous
  row is committed or its hash is the block's previous hash.
\<close>

definition appendable :: "context \<Rightarrow> block \<Rightarrow> bool" where
  "appendable ctx b \<longleftrightarrow>
     b_index b = getCurrentHeight ctx + 1 \<and>
     (case getPreviousBlockModel ctx (b_index b) of
        None \<Rightarrow> True
      | Some p \<Rightarrow> b_previousBlockHash b = m_hash p)"

text \<open>The aggregate stored at the current height, zero when no row is committed there.\<close>

definition prevAggregate :: "context \<Rightarrow> rat" where
  "prevAggregate ctx =
     (case findById (db ctx) (currentHeight ctx) of
        None \<Rightarrow> 0
      | Some p \<Rightarrow> m_aggregated_system_fee p)"

text \<open>
  A local chain \<open>A0..A5\<close> and a canonical chain \<open>B0..B5\<close> that agree up to index 2 and
  differ from index 3 on.
\<close>

definition chainA :: "block list" where
  "chainA =
     [mkBlock 0 ''a0'' [] [1 / 2, 1 / 4], mkBlock 1 ''a1'' ''a0'' [2], mkBlock 2 ''a2'' ''a1'' [],
      mkBlock 3 ''a3'' ''a2'' [], mkBlock 4 ''a4'' ''a3'' [], mkBlock 5 ''a5'' ''a4'' []]"

definition chainB :: "block list" where
  "chainB =
     [mkBlock 0 ''a0'' [] [1 / 2, 1 / 4], mkBlock 1 ''a1'' ''a0'' [2], mkBlock 2 ''a2'' ''a1'' [],
      mkBlock 3 ''b3'' ''a2'' [], mkBlock 4 ''b4'' ''b3'' [], mkBlock 5 ''b5'' ''b4'' []]"

text \<open>
  The context after the given blocks were saved into an empty projection, the part of a
  context that the examples compare (height, hash of the last committed row, index and
  hash of every row), the stored fees of every row, and the revert of the row the
  context points to.
\<close>

definition committed :: "block list \<Rightarrow> block list \<Rightarrow> context" where
  "committed served bs =
     (case saveAll (emptyContext served) bs of Inr c \<Rightarrow> c | Inl e \<Rightarrow> emptyContext served)"

definition observe :: "context \<Rightarrow> int \<times> string option \<times> (int \<times> string) list" where
  "observe ctx =
     (currentHeight ctx, map_option m_hash (prevBlock ctx),
      map (\<lambda>r. (m_id r, m_hash r)) (blocks (db ctx)))"

definition storedFees :: "context \<Rightarrow> (int \<times> rat \<times> rat) list" where
  "storedFees ctx = map (\<lambda>r. (m_id r, m_system_fee r, m_aggregated_system_fee r)) (blocks (db ctx))"

definition revertTip :: "context \<Rightarrow> context" where
  "revertTip ctx = (case prevBlock ctx of None \<Rightarrow> ctx | Some r \<Rightarrow> revert ctx r)"

text \<open>
  For the examples of the extraction: a host (only the shape of its functions matters),
  a client whose contract queries succeed except, possibly, \<^verbatim>\<open>totalSupply\<close>, a contract with
  a given hash and script, a script that holds the six method names and one without
  \<^verbatim>\<open>transfer\<close>, and a transaction of a given kind.
\<close>

definition exampleHost :: host where
  "exampleHost =
     \<lparr> JSON_stringify = (\<lambda>s. [CHR 0x22] @ s @ [CHR 0x22]),
       JSON_stringify_list = (\<lambda>ss. ''[]''),
       toString = (\<lambda>x. if x = 0 then ''0'' else ''100000000''),
       toNumber = (\<lambda>x. x),
       add0x = (\<lambda>s. ''0x'' @ s) \<rparr>"

definition tokenClient :: "(error + rat) \<Rightarrow> client" where
  "tokenClient supply =
     \<lparr> client_blocks = [],
       abi_NEP5 = (\<lambda>h. Inr ''NEP5''),
       nep5_name = (\<lambda>h. Inr ''Token''),
       nep5_symbol = (\<lambda>h. Inr ''TKN''),
       nep5_decimals = (\<lambda>h. Inr 8),
       nep5_totalSupply = (\<lambda>h. supply) \<rparr>"

definition tokenContext :: "(error + rat) \<Rightarrow> string set \<Rightarrow> context" where
  "tokenContext supply blacklist =
     (emptyContext [])\<lparr>client := tokenClient supply, blacklistNEP5Hashes := blacklist\<rparr>"

definition mkContract :: "string \<Rightarrow> string \<Rightarrow> contract" where
  "mkContract h s =
     \<lparr> c_hash = h, c_script = s, c_parameters = [], c_returnType = ''ByteArray'',
       c_storage = True, c_name = [], c_codeVersion = [], c_author = [], c_email = [],
       c_description = [] \<rparr>"

definition tokenScript :: string where
  "tokenScript =
     ''746f74616c537570706c79006e616d650073796d626f6c00646563696d616c730062616c616e63654f66007472616e73666572''"

definition noTransferScript :: string where
  "noTransferScript =
     ''746f74616c537570706c79006e616d650073796d626f6c00646563696d616c730062616c616e63654f66''"

definition mkTransaction :: "tx_type \<Rightarrow> transaction" where
  "mkTransaction ty =
     \<lparr> t_txid = ''tx1'', t_globalIndex = 0, t_systemFee = 0, t_networkFee = 0, t_type = ty \<rparr>"

definition gas :: asset where
  "gas =
     \<lparr> a_type = ''UtilityToken'', a_name = ''GAS'', a_amount = 100000000, a_precision = 8,
       a_owner = ''owner'', a_admin = ''admin'' \<rparr>"

section \<open>Auxiliary facts\<close>

lemmas store_defs = findById_def insertAndReturn_def isUniqueError_def deleteRow_def
  systemFee_save_def systemFee_revert_def processedIndex_save_def processedIndex_revert_def

lemmas updater_defs = getCurrentHeight_def getPreviousBlockModel_def getBlock_def
  revert_def append_def newRow_def aggregatedSystemFee_of_def systemFee_of_def networkFee_of_def

lemmas example_defs = mkBlock_def mkClient_def emptyContext_def committed_def observe_def
  storedFees_def revertTip_def chainA_def chainB_def

lemma fixed8_iff: "fixed8 x \<longleftrightarrow> (\<exists>k::int. x * 100000000 = of_int k)"
  unfolding fixed8_def by (metis floor_of_int)

lemma toFixed8_fixed8: "fixed8 x \<Longrightarrow> toFixed8 x = x"
proof -
  assume "fixed8 x"
  then obtain k :: int where k: "x * 100000000 = of_int k"
    by (auto simp: fixed8_iff)
  have up: "\<lfloor>(of_int k :: rat) + 1 / 2\<rfloor> = k"
    by (simp add: floor_unique)
  have "- (x * 100000000) = of_int (- k)"
    using k by simp
  moreover have "\<lfloor>(of_int (- k) :: rat) + 1 / 2\<rfloor> = - k"
    by (simp add: floor_unique)
  ultimately have down: "\<lfloor>- (x * 100000000) + 1 / 2\<rfloor> = - k"
    by simp
  show ?thesis
    using k up down by (simp add: toFixed8_def field_simps)
qed

lemma fixed8_0: "fixed8 0"
  by (simp add: fixed8_def)

lemma fixed8_add: "fixed8 x \<Longrightarrow> fixed8 y \<Longrightarrow> fixed8 (x + y)"
  unfolding fixed8_iff by (metis distrib_right of_int_add)

lemma fixed8_foldl:
  "fixed8 a \<Longrightarrow> \<forall>t \<in> set ts. fixed8 (t_systemFee t) \<Longrightarrow>
   fixed8 (foldl (\<lambda>sysFee t. sysFee + t_systemFee t) a ts)"
  by (induction ts arbitrary: a) (auto simp: fixed8_add)

lemma fixed8_systemFee_of:
  "\<forall>t \<in> set (b_transactions b). fixed8 (t_systemFee t) \<Longrightarrow> fixed8 (systemFee_of b)"
  by (simp add: systemFee_of_def fixed8_foldl fixed8_0)

lemmas eval_simps = save.simps store_defs updater_defs example_defs Let_def
  toFixed8_fixed8 fixed8_def

lemma find_snoc:
  "find P (xs @ [y]) =
     (case find P xs of None \<Rightarrow> (if P y then Some y else None) | Some x \<Rightarrow> Some x)"
  by (induction xs) auto

lemma findById_id: "findById d i = Some r \<Longrightarrow> m_id r = i"
  by (auto simp: findById_def find_Some_iff)

lemma findById_above: "\<forall>r \<in> set (blocks d). m_id r \<le> h \<Longrightarrow> h < i \<Longrightarrow> findById d i = None"
  by (auto simp: findById_def find_None_iff)

lemma find_filter_other:
  "i \<noteq> j \<Longrightarrow> find (\<lambda>r. m_id r = i) (filter (\<lambda>r. m_id r \<noteq> j) rs) = find (\<lambda>r. m_id r = i) rs"
  by (induction rs) auto



lemma findById_revert_other:
  "i \<noteq> m_id r \<Longrightarrow> findById (db (revert ctx r)) i = findById (db ctx) i"
  by (simp add: revert_def Let_def store_defs find_filter_other)

text \<open>
  What \<^verbatim>\<open>revert\<close> returns: the context points at the committed row two below the reverted
  one, the argument of \<^verbatim>\<open>getPreviousBlockModel\<close> being \<^verbatim>\<open>blockModel.id - 1\<close>.
\<close>

lemma revert_pointer:
  "prevBlock (revert ctx r) = findById (db ctx) (m_id r - 2) \<and>
   currentHeight (revert ctx r) =
     (case findById (db ctx) (m_id r - 2) of None \<Rightarrow> - 1 | Some p \<Rightarrow> m_id r - 2)"
proof -
  have "findById (db (revert ctx r)) (m_id r - 2) = findById (db ctx) (m_id r - 2)"
    by (simp add: findById_revert_other)
  moreover have "prevBlock (revert ctx r) = findById (db (revert ctx r)) (m_id r - 2)"
    by (simp add: revert_def Let_def getPreviousBlockModel_def store_defs)
  moreover have "currentHeight (revert ctx r) =
     (case prevBlock (revert ctx r) of None \<Rightarrow> - 1 | Some p \<Rightarrow> m_id p)"
    by (simp add: revert_def Let_def)
  ultimately show ?thesis
    by (auto split: option.splits dest: findById_id)
qed

lemma save_appendable:
  "appendable ctx b \<Longrightarrow> save ctx b = append ctx (getPreviousBlockModel ctx (b_index b)) b"
  by (subst save.simps) (auto simp: appendable_def split: option.splits)

lemma save_stale_same:
  "b_index b = currentHeight ctx \<Longrightarrow> findById (db ctx) (b_index b) = Some r \<Longrightarrow>
   m_hash r = b_hash b \<Longrightarrow> save ctx b = Inr ctx"
  by (simp add: save.simps getCurrentHeight_def)


lemma save_elsewhere:
  "b_index b \<noteq> currentHeight ctx + 1 \<Longrightarrow> b_index b \<noteq> currentHeight ctx \<Longrightarrow> save ctx b = Inr ctx"
  by (simp add: save.simps getCurrentHeight_def)

lemma append_insert:
  assumes "findById (db ctx) (b_index b) = None" "insert_fault (db ctx) = None"
  shows "append ctx p b =
     Inr (ctx\<lparr>db := (db ctx)\<lparr>blocks := blocks (db ctx) @ [newRow p b],
                  fee_ledger := fee_ledger (db ctx) @
                    [(b_index b, toFixed8 (aggregatedSystemFee_of p b))],
                  processed_index := b_index b\<rparr>,
              prevBlock := Some (newRow p b), currentHeight := b_index b\<rparr>)"
  using assms
  by (simp add: append_def insertAndReturn_def Let_def newRow_def systemFee_save_def
      processedIndex_save_def)

lemma append_Inr_fault: "append ctx p b = Inr ctx' \<Longrightarrow> insert_fault (db ctx) = None"
  by (auto simp: append_def insertAndReturn_def isUniqueError_def Let_def
           split: option.splits sum.splits if_splits)

lemma append_not_unique: "append ctx p b \<noteq> Inl UniqueViolation"
  by (auto simp: append_def insertAndReturn_def isUniqueError_def Let_def
           split: option.splits sum.splits if_splits)

lemma save_not_unique: "save ctx b \<noteq> Inl UniqueViolation"
proof (induction ctx b rule: save.induct)
  case (1 ctx b)
  show ?case
    by (subst save.simps)
       (use 1 in \<open>auto simp: append_not_unique getBlock_def split: option.splits sum.splits\<close>)
qed

section \<open>The block updater: claims\<close>

text \<open>
  Claim C9. A block whose index is neither the height plus one nor the height is not
  written and raises no error: \<^verbatim>\<open>save\<close> returns the context it was given, storage
  included.
\<close>

theorem save_out_of_order_noop:
  "b_index b \<noteq> currentHeight ctx + 1 \<Longrightarrow> b_index b \<noteq> currentHeight ctx \<Longrightarrow>
   save ctx b = Inr ctx"
  by (rule save_elsewhere)

theorem save_out_of_order_noop_witness:
  "b_index (chainB ! 3) \<noteq> currentHeight (committed chainB chainA) + 1 \<and>
   b_index (chainB ! 3) \<noteq> currentHeight (committed chainB chainA) \<and>
   save (committed chainB chainA) (chainB ! 3) = Inr (committed chainB chainA)"
proof -
  have h: "b_index (chainB ! 3) \<noteq> currentHeight (committed chainB chainA) + 1"
          "b_index (chainB ! 3) \<noteq> currentHeight (committed chainB chainA)"
    by (simp_all add: eval_simps)
  show ?thesis
    using h save_out_of_order_noop [OF h] by simp
qed

text \<open>
  Claim C8. When the block's index is the height and its hash is the hash of the row
  committed there, \<^verbatim>\<open>save\<close> returns the context unchanged, storage included. Hence a
  block that was just appended can be saved again: the second call changes neither the
  committed row nor the aggregated fee.
\<close>

theorem save_duplicate_noop:
  "(b_index b = currentHeight ctx \<and> findById (db ctx) (b_index b) = Some r \<and> m_hash r = b_hash b
      \<longrightarrow> save ctx b = Inr ctx) \<and>
   (appendable ctx b \<and> findById (db ctx) (b_index b) = None \<and> save ctx b = Inr ctx'
      \<longrightarrow> save ctx' b = Inr ctx')"
proof (intro conjI impI)
  assume "b_index b = currentHeight ctx \<and> findById (db ctx) (b_index b) = Some r \<and>
          m_hash r = b_hash b"
  then show "save ctx b = Inr ctx"
    by (auto intro: save_stale_same)
next
  assume a: "appendable ctx b \<and> findById (db ctx) (b_index b) = None \<and> save ctx b = Inr ctx'"
  let ?p = "getPreviousBlockModel ctx (b_index b)"
  from a have ap: "append ctx ?p b = Inr ctx'"
    using save_appendable [of ctx b] by auto
  then have "insert_fault (db ctx) = None"
    by (rule append_Inr_fault)
  with a ap have c: "ctx' = ctx\<lparr>db := (db ctx)\<lparr>blocks := blocks (db ctx) @ [newRow ?p b],
                  fee_ledger := fee_ledger (db ctx) @
                    [(b_index b, toFixed8 (aggregatedSystemFee_of ?p b))],
                  processed_index := b_index b\<rparr>,
              prevBlock := Some (newRow ?p b), currentHeight := b_index b\<rparr>"
    by (simp add: append_insert)
  have h: "b_index b = currentHeight ctx'"
    by (simp add: c)
  have f: "findById (db ctx') (b_index b) = Some (newRow ?p b)"
    using a by (simp add: c findById_def find_snoc newRow_def)
  have "m_hash (newRow ?p b) = b_hash b"
    by (simp add: newRow_def)
  with h f show "save ctx' b = Inr ctx'"
    by (rule save_stale_same)
qed

theorem save_duplicate_noop_witness:
  "appendable (committed [] (take 1 chainA)) (chainA ! 1) \<and>
   findById (db (committed [] (take 1 chainA))) (b_index (chainA ! 1)) = None \<and>
   save (committed [] (take 1 chainA)) (chainA ! 1) = Inr (committed [] (take 2 chainA)) \<and>
   b_index (chainA ! 1) = currentHeight (committed [] (take 2 chainA)) \<and>
   map_option m_hash (findById (db (committed [] (take 2 chainA))) (b_index (chainA ! 1))) =
     Some (b_hash (chainA ! 1)) \<and>
   save (committed [] (take 2 chainA)) (chainA ! 1) = Inr (committed [] (take 2 chainA)) \<and>
   storedFees (committed [] (take 2 chainA)) = [(0, 3 / 4, 3 / 4), (1, 2, 11 / 4)]"
proof -
  let ?c1 = "committed [] (take 1 chainA)"
  let ?c2 = "committed [] (take 2 chainA)"
  let ?b = "chainA ! 1"
  have a: "appendable ?c1 ?b" "findById (db ?c1) (b_index ?b) = None"
    by (simp_all add: appendable_def eval_simps)
  have s: "save ?c1 ?b = Inr ?c2"
    by (simp add: eval_simps)
  obtain r where r: "findById (db ?c2) (b_index ?b) = Some r" "m_hash r = b_hash ?b"
    by (simp add: eval_simps)
  have again: "save ?c2 ?b = Inr ?c2"
    using save_duplicate_noop [of ?b ?c1 r ?c2] a s by simp
  have h: "b_index ?b = currentHeight ?c2"
    by (simp add: eval_simps)
  have "save ?c2 ?b = Inr ?c2"
    using save_duplicate_noop [of ?b ?c2 r ?c2] h r by simp
  moreover have "storedFees ?c2 = [(0, 3 / 4, 3 / 4), (1, 2, 11 / 4)]"
    by (simp add: eval_simps)
  ultimately show ?thesis
    using a s h r by simp
qed

text \<open>
  Claim C7. In the append branch, when the insert of the block row reports a uniqueness
  violation, \<^verbatim>\<open>save\<close> succeeds: the row already stored at that index becomes the context's
  last committed row and the height, and the block table is as it was. Any other error
  of the insert is the result of \<^verbatim>\<open>save\<close>, unchanged. No call of \<^verbatim>\<open>save\<close> returns the
  uniqueness violation.
\<close>

theorem insert_or_fetch:
  "(appendable ctx b \<and> isUniqueError e \<and>
    insertAndReturn (db ctx) (newRow (getPreviousBlockModel ctx (b_index b)) b) = Inl e
      \<longrightarrow> (\<exists>r ctx'. findById (db ctx) (b_index b) = Some r \<and> save ctx b = Inr ctx' \<and>
             prevBlock ctx' = Some r \<and> currentHeight ctx' = b_index b \<and>
             blocks (db ctx') = blocks (db ctx))) \<and>
   (appendable ctx b \<and> \<not> isUniqueError e \<and>
    insertAndReturn (db ctx) (newRow (getPreviousBlockModel ctx (b_index b)) b) = Inl e
      \<longrightarrow> save ctx b = Inl e) \<and>
   save ctx b \<noteq> Inl UniqueViolation"
proof (intro conjI impI)
  let ?p = "getPreviousBlockModel ctx (b_index b)"
  assume a: "appendable ctx b \<and> isUniqueError e \<and>
             insertAndReturn (db ctx) (newRow ?p b) = Inl e"
  then obtain r where r: "findById (db ctx) (b_index b) = Some r"
    by (auto simp: insertAndReturn_def isUniqueError_def newRow_def
             split: option.splits if_splits)
  then have "m_id r = b_index b"
    by (rule findById_id)
  with a r show "\<exists>r ctx'. findById (db ctx) (b_index b) = Some r \<and> save ctx b = Inr ctx' \<and>
             prevBlock ctx' = Some r \<and> currentHeight ctx' = b_index b \<and>
             blocks (db ctx') = blocks (db ctx)"
    by (simp add: save_appendable append_def Let_def systemFee_save_def processedIndex_save_def)
next
  let ?p = "getPreviousBlockModel ctx (b_index b)"
  assume "appendable ctx b \<and> \<not> isUniqueError e \<and>
          insertAndReturn (db ctx) (newRow ?p b) = Inl e"
  then show "save ctx b = Inl e"
    by (simp add: save_appendable append_def Let_def)
next
  show "save ctx b \<noteq> Inl UniqueViolation"
    by (rule save_not_unique)
qed

theorem insert_or_fetch_witness:
  "appendable ((committed [] (take 2 chainA))\<lparr>currentHeight := 0\<rparr>) (chainB ! 1) \<and>
   isUniqueError UniqueViolation \<and>
   insertAndReturn (db ((committed [] (take 2 chainA))\<lparr>currentHeight := 0\<rparr>))
     (newRow (getPreviousBlockModel ((committed [] (take 2 chainA))\<lparr>currentHeight := 0\<rparr>) 1)
        (chainB ! 1)) = Inl UniqueViolation \<and>
   map_sum id observe (save ((committed [] (take 2 chainA))\<lparr>currentHeight := 0\<rparr>) (chainB ! 1)) =
     Inr (1, Some ''a1'', [(0, ''a0''), (1, ''a1'')]) \<and>
   appendable ((emptyContext [])\<lparr>db := (db (emptyContext []))\<lparr>insert_fault := Some ''disk''\<rparr>\<rparr>)
     (chainA ! 0) \<and>
   \<not> isUniqueError (StorageError ''disk'') \<and>
   save ((emptyContext [])\<lparr>db := (db (emptyContext []))\<lparr>insert_fault := Some ''disk''\<rparr>\<rparr>)
     (chainA ! 0) = Inl (StorageError ''disk'')"
proof -
  let ?c = "(committed [] (take 2 chainA))\<lparr>currentHeight := 0\<rparr>"
  let ?f = "(emptyContext [])\<lparr>db := (db (emptyContext []))\<lparr>insert_fault := Some ''disk''\<rparr>\<rparr>"
  have a: "appendable ?c (chainB ! 1)" "isUniqueError UniqueViolation"
    "insertAndReturn (db ?c) (newRow (getPreviousBlockModel ?c (b_index (chainB ! 1))) (chainB ! 1)) =
       Inl UniqueViolation"
    by (simp_all add: appendable_def eval_simps)
  have b: "appendable ?f (chainA ! 0)" "\<not> isUniqueError (StorageError ''disk'')"
    "insertAndReturn (db ?f) (newRow (getPreviousBlockModel ?f (b_index (chainA ! 0))) (chainA ! 0)) =
       Inl (StorageError ''disk'')"
    by (simp_all add: appendable_def eval_simps)
  have i: "b_index (chainB ! 1) = 1"
    by (simp add: example_defs)
  have "\<exists>r ctx'. findById (db ?c) (b_index (chainB ! 1)) = Some r \<and>
          save ?c (chainB ! 1) = Inr ctx' \<and> prevBlock ctx' = Some r \<and>
          currentHeight ctx' = b_index (chainB ! 1) \<and> blocks (db ctx') = blocks (db ?c)"
    using insert_or_fetch [of ?c "chainB ! 1" UniqueViolation] a by blast
  then have 1: "map_sum id observe (save ?c (chainB ! 1)) =
                  Inr (1, Some ''a1'', [(0, ''a0''), (1, ''a1'')])"
    by (auto simp: eval_simps)
  have 2: "save ?f (chainA ! 0) = Inl (StorageError ''disk'')"
    using insert_or_fetch [of ?f "chainA ! 0" "StorageError ''disk''"] b by blast
  show ?thesis
    using a b 1 2 i by simp
qed


text \<open>
  Claim C2, evaluated. With blocks 0 and 1 committed, \<^verbatim>\<open>revert\<close> of the row at height 1
  returns height \<open>-1\<close> and no previous-block pointer, while block 0 stays committed;
  with blocks 0, 1 and 2 committed, \<^verbatim>\<open>revert\<close> of the row at height 2 returns height 0
  and the pointer to block 0, while block 1 stays committed.
\<close>

theorem revert_height_evaluated:
  "observe (committed [] (take 2 chainA)) = (1, Some ''a1'', [(0, ''a0''), (1, ''a1'')]) \<and>
   observe (revertTip (committed [] (take 2 chainA))) = (- 1, None, [(0, ''a0'')]) \<and>
   observe (committed [] (take 3 chainA)) =
     (2, Some ''a2'', [(0, ''a0''), (1, ''a1''), (2, ''a2'')]) \<and>
   observe (revertTip (committed [] (take 3 chainA))) =
     (0, Some ''a0'', [(0, ''a0''), (1, ''a1'')])"
  by (simp add: eval_simps)

text \<open>
  Claim C3, evaluated. From the context with block 0 committed (height 0), \<^verbatim>\<open>save\<close> of
  block 1 followed by \<^verbatim>\<open>revert\<close> of its row gives height \<open>-1\<close> and no pointer, not the
  context before the \<^verbatim>\<open>save\<close>; and \<^verbatim>\<open>save\<close> of block 1 on the reverted context changes
  nothing, so the block is not committed again.
\<close>

theorem revert_after_save_evaluated:
  "observe (committed [] (take 1 chainA)) = (0, Some ''a0'', [(0, ''a0'')]) \<and>
   save (committed [] (take 1 chainA)) (chainA ! 1) = Inr (committed [] (take 2 chainA)) \<and>
   prevBlock (committed [] (take 2 chainA)) =
     findById (db (committed [] (take 2 chainA))) (b_index (chainA ! 1)) \<and>
   observe (revertTip (committed [] (take 2 chainA))) = (- 1, None, [(0, ''a0'')]) \<and>
   map_sum id observe (save (revertTip (committed [] (take 2 chainA))) (chainA ! 1)) =
     Inr (- 1, None, [(0, ''a0'')])"
  by (simp add: eval_simps)








text \<open>
  Sequential append, from any context whose rows lie at or below its height: each block
  of a contiguous, linked sequence is appended, the rows below stay, and with fees of at
  most eight decimals the stored aggregate is the previous aggregate plus the exact fees.
\<close>

lemma saveAll_chain:
  assumes "insert_fault (db ctx) = None"
    and "\<forall>r \<in> set (blocks (db ctx)). m_id r \<le> currentHeight ctx"
    and "contiguous (currentHeight ctx) bs"
    and "linked bs"
    and "case findById (db ctx) (currentHeight ctx) of
           None \<Rightarrow> True
         | Some p \<Rightarrow> (case bs of [] \<Rightarrow> True | b # _ \<Rightarrow> b_previousBlockHash b = m_hash p)"
    and "\<forall>b \<in> set bs. \<forall>t \<in> set (b_transactions b). fixed8 (t_systemFee t)"
    and "fixed8 (prevAggregate ctx)"
  shows "\<exists>ctx'. saveAll ctx bs = Inr ctx' \<and>
           (\<forall>i \<le> currentHeight ctx. findById (db ctx') i = findById (db ctx) i) \<and>
           (\<forall>n < length bs. \<exists>r.
              findById (db ctx') (currentHeight ctx + 1 + int n) = Some r \<and>
              m_hash r = b_hash (bs ! n) \<and>
              m_system_fee r = systemFee_of (bs ! n) \<and>
              m_aggregated_system_fee r = prevAggregate ctx + (\<Sum>i\<le>n. systemFee_of (bs ! i)))"
  using assms
proof (induction bs arbitrary: ctx)
  case Nil
  then show ?case by simp
next
  case (Cons b bs)
  let ?h = "currentHeight ctx"
  let ?p = "findById (db ctx) ?h"
  let ?row = "newRow ?p b"
  let ?ctx1 = "ctx\<lparr>db := (db ctx)\<lparr>blocks := blocks (db ctx) @ [?row],
                  fee_ledger := fee_ledger (db ctx) @
                    [(b_index b, toFixed8 (aggregatedSystemFee_of ?p b))],
                  processed_index := b_index b\<rparr>,
              prevBlock := Some ?row, currentHeight := b_index b\<rparr>"
  have idx: "b_index b = ?h + 1"
    using Cons.prems(3) by simp
  have prev: "getPreviousBlockModel ctx (b_index b) = ?p"
    by (simp add: getPreviousBlockModel_def idx)
  have app: "appendable ctx b"
    using Cons.prems(5) idx
    by (auto simp: appendable_def getCurrentHeight_def getPreviousBlockModel_def
             split: option.splits)
  have fresh: "findById (db ctx) (b_index b) = None"
    using Cons.prems(2) idx by (intro findById_above[of _ ?h]) auto
  have s1: "save ctx b = Inr ?ctx1"
    using app fresh Cons.prems(1) by (simp add: save_appendable prev append_insert)
  have feeb: "fixed8 (systemFee_of b)"
    using Cons.prems(6) by (simp add: fixed8_systemFee_of)
  have aggsum: "aggregatedSystemFee_of ?p b = prevAggregate ctx + systemFee_of b"
    by (simp add: aggregatedSystemFee_of_def prevAggregate_def split: option.splits)
  have agg: "m_aggregated_system_fee ?row = prevAggregate ctx + systemFee_of b"
    using feeb Cons.prems(7) by (simp add: newRow_def aggsum toFixed8_fixed8 fixed8_add)
  have sysf: "m_system_fee ?row = systemFee_of b"
    using feeb by (simp add: newRow_def toFixed8_fixed8)
  have f1: "findById (db ?ctx1) (b_index b) = Some ?row"
    using fresh by (simp add: findById_def find_snoc newRow_def)
  have old: "findById (db ?ctx1) i = findById (db ctx) i" if "i \<le> ?h" for i
    using that idx by (simp add: findById_def find_snoc newRow_def split: option.splits)
  have pa1: "prevAggregate ?ctx1 = prevAggregate ctx + systemFee_of b"
    using f1 agg by (simp add: prevAggregate_def)
  have "\<exists>ctx'. saveAll ?ctx1 bs = Inr ctx' \<and>
           (\<forall>i \<le> currentHeight ?ctx1. findById (db ctx') i = findById (db ?ctx1) i) \<and>
           (\<forall>n < length bs. \<exists>r.
              findById (db ctx') (currentHeight ?ctx1 + 1 + int n) = Some r \<and>
              m_hash r = b_hash (bs ! n) \<and>
              m_system_fee r = systemFee_of (bs ! n) \<and>
              m_aggregated_system_fee r =
                prevAggregate ?ctx1 + (\<Sum>i\<le>n. systemFee_of (bs ! i)))"
  proof (rule Cons.IH)
    show "insert_fault (db ?ctx1) = None"
      using Cons.prems(1) by simp
    show "\<forall>r \<in> set (blocks (db ?ctx1)). m_id r \<le> currentHeight ?ctx1"
      using Cons.prems(2) idx by (auto simp: newRow_def)
    show "contiguous (currentHeight ?ctx1) bs"
      using Cons.prems(3) by simp
    show "linked bs"
      using Cons.prems(4) by (cases bs) auto
    show "case findById (db ?ctx1) (currentHeight ?ctx1) of
           None \<Rightarrow> True
         | Some p \<Rightarrow> (case bs of [] \<Rightarrow> True | b # _ \<Rightarrow> b_previousBlockHash b = m_hash p)"
      using f1 Cons.prems(4) by (cases bs) (auto simp: newRow_def)
    show "\<forall>b \<in> set bs. \<forall>t \<in> set (b_transactions b). fixed8 (t_systemFee t)"
      using Cons.prems(6) by simp
    show "fixed8 (prevAggregate ?ctx1)"
      using feeb Cons.prems(7) by (simp add: pa1 fixed8_add)
  qed
  then obtain ctx' where c: "saveAll ?ctx1 bs = Inr ctx'"
    and keep: "\<forall>i \<le> b_index b. findById (db ctx') i = findById (db ?ctx1) i"
    and rows: "\<forall>n < length bs. \<exists>r.
              findById (db ctx') (b_index b + 1 + int n) = Some r \<and>
              m_hash r = b_hash (bs ! n) \<and>
              m_system_fee r = systemFee_of (bs ! n) \<and>
              m_aggregated_system_fee r =
                prevAggregate ?ctx1 + (\<Sum>i\<le>n. systemFee_of (bs ! i))"
    by auto
  have all: "saveAll ctx (b # bs) = Inr ctx'"
    by (simp add: s1 c)
  have keep': "\<forall>i \<le> ?h. findById (db ctx') i = findById (db ctx) i"
    using keep old idx by auto
  have new: "\<exists>r. findById (db ctx') (?h + 1 + int n) = Some r \<and>
              m_hash r = b_hash ((b # bs) ! n) \<and>
              m_system_fee r = systemFee_of ((b # bs) ! n) \<and>
              m_aggregated_system_fee r =
                prevAggregate ctx + (\<Sum>i\<le>n. systemFee_of ((b # bs) ! i))"
    if n: "n < length (b # bs)" for n
  proof (cases n)
    case 0
    have "findById (db ctx') (b_index b) = Some ?row"
      using keep f1 by simp
    then show ?thesis
      using 0 agg sysf idx by (simp add: newRow_def)
  next
    case (Suc k)
    then have "k < length bs"
      using n by simp
    with rows obtain r where r: "findById (db ctx') (b_index b + 1 + int k) = Some r"
      "m_hash r = b_hash (bs ! k)" "m_system_fee r = systemFee_of (bs ! k)"
      "m_aggregated_system_fee r = prevAggregate ?ctx1 + (\<Sum>i\<le>k. systemFee_of (bs ! i))"
      by blast
    have "(\<Sum>i\<le>Suc k. systemFee_of ((b # bs) ! i)) =
            systemFee_of b + (\<Sum>i\<le>k. systemFee_of (bs ! i))"
      by (simp add: sum.atMost_Suc_shift del: sum.atMost_Suc)
    with r pa1 show ?thesis
      using Suc idx by (simp add: algebra_simps)
  qed
  from all keep' new show ?case
    by blast
qed

text \<open>
  Claim C4 fails as stated. A first block whose one transaction declares the system fee
  \<open>0.000000004\<close> is appended with the stored system fee and aggregated system fee
  \<open>0.00000000\<close>, which is not the exact sum of the fees.
\<close>

theorem aggregated_fee_counterexample:
  "map_sum id storedFees (saveAll (emptyContext []) [mkBlock 0 ''a0'' [] [4 / 1000000000]]) =
     Inr [(0, 0, 0)] \<and>
   contiguous (- 1) [mkBlock 0 ''a0'' [] [4 / 1000000000]] \<and>
   linked [mkBlock 0 ''a0'' [] [4 / 1000000000]] \<and>
   systemFee_of (mkBlock 0 ''a0'' [] [4 / 1000000000]) = 4 / 1000000000"
  by (simp add: save.simps store_defs updater_defs example_defs Let_def toFixed8_def floor_eq_iff)

text \<open>
  Claim C4, amended. Blocks with contiguous indices from 0 and matching previous-hash
  links, whose transactions declare system fees of at most eight decimals, are all
  appended to an empty projection; afterwards the row at index \<open>n\<close> stores the exact system
  fee of block \<open>n\<close>, and its aggregated system fee is the sum of the system fees of the
  blocks \<open>0..n\<close>: the fee of block 0 at index 0, and the aggregate of the row below plus
  the block's fee at every other index.
\<close>

theorem aggregated_fee_invariant:
  assumes "currentHeight ctx = - 1" and "blocks (db ctx) = []" and "insert_fault (db ctx) = None"
    and "contiguous (- 1) bs" and "linked bs"
    and "\<forall>b \<in> set bs. \<forall>t \<in> set (b_transactions b). fixed8 (t_systemFee t)"
  shows "\<exists>ctx'. saveAll ctx bs = Inr ctx' \<and>
           (\<forall>n < length bs. \<exists>r.
              findById (db ctx') (int n) = Some r \<and>
              m_system_fee r = systemFee_of (bs ! n) \<and>
              m_aggregated_system_fee r = (\<Sum>i\<le>n. systemFee_of (bs ! i)) \<and>
              (n = 0 \<longrightarrow> m_aggregated_system_fee r = m_system_fee r) \<and>
              (\<forall>k. n = Suc k \<longrightarrow>
                 (\<exists>q. findById (db ctx') (int k) = Some q \<and>
                      m_aggregated_system_fee r = m_aggregated_system_fee q + m_system_fee r)))"
proof -
  have none: "findById (db ctx) i = None" for i
    using assms(2) by (simp add: findById_def)
  then have zero: "prevAggregate ctx = 0"
    by (simp add: prevAggregate_def)
  have "\<exists>ctx'. saveAll ctx bs = Inr ctx' \<and>
           (\<forall>i \<le> currentHeight ctx. findById (db ctx') i = findById (db ctx) i) \<and>
           (\<forall>n < length bs. \<exists>r.
              findById (db ctx') (currentHeight ctx + 1 + int n) = Some r \<and>
              m_hash r = b_hash (bs ! n) \<and>
              m_system_fee r = systemFee_of (bs ! n) \<and>
              m_aggregated_system_fee r = prevAggregate ctx + (\<Sum>i\<le>n. systemFee_of (bs ! i)))"
    using assms by (intro saveAll_chain) (simp_all add: none zero fixed8_0)
  then obtain ctx' where c: "saveAll ctx bs = Inr ctx'"
    and rows0: "\<forall>n < length bs. \<exists>r.
              findById (db ctx') (currentHeight ctx + 1 + int n) = Some r \<and>
              m_hash r = b_hash (bs ! n) \<and>
              m_system_fee r = systemFee_of (bs ! n) \<and>
              m_aggregated_system_fee r = prevAggregate ctx + (\<Sum>i\<le>n. systemFee_of (bs ! i))"
    by blast
  have rows: "\<exists>r. findById (db ctx') (int n) = Some r \<and>
              m_system_fee r = systemFee_of (bs ! n) \<and>
              m_aggregated_system_fee r = (\<Sum>i\<le>n. systemFee_of (bs ! i))"
    if "n < length bs" for n
  proof -
    from rows0 that obtain r where "findById (db ctx') (currentHeight ctx + 1 + int n) = Some r"
      "m_system_fee r = systemFee_of (bs ! n)"
      "m_aggregated_system_fee r = prevAggregate ctx + (\<Sum>i\<le>n. systemFee_of (bs ! i))"
      by blast
    then show ?thesis
      using assms(1) zero by simp
  qed
  have "\<exists>r. findById (db ctx') (int n) = Some r \<and>
              m_system_fee r = systemFee_of (bs ! n) \<and>
              m_aggregated_system_fee r = (\<Sum>i\<le>n. systemFee_of (bs ! i)) \<and>
              (n = 0 \<longrightarrow> m_aggregated_system_fee r = m_system_fee r) \<and>
              (\<forall>k. n = Suc k \<longrightarrow>
                 (\<exists>q. findById (db ctx') (int k) = Some q \<and>
                      m_aggregated_system_fee r = m_aggregated_system_fee q + m_system_fee r))"
    if n: "n < length bs" for n
  proof -
    from rows [OF n] obtain r where r: "findById (db ctx') (int n) = Some r"
      "m_system_fee r = systemFee_of (bs ! n)"
      "m_aggregated_system_fee r = (\<Sum>i\<le>n. systemFee_of (bs ! i))"
      by blast
    have first: "n = 0 \<longrightarrow> m_aggregated_system_fee r = m_system_fee r"
      using r by simp
    have below: "\<exists>q. findById (db ctx') (int k) = Some q \<and>
                   m_aggregated_system_fee r = m_aggregated_system_fee q + m_system_fee r"
      if k: "n = Suc k" for k
    proof -
      from k n have "k < length bs"
        by simp
      from rows [OF this] obtain q where q: "findById (db ctx') (int k) = Some q"
        "m_aggregated_system_fee q = (\<Sum>i\<le>k. systemFee_of (bs ! i))"
        by blast
      with r k show ?thesis
        by simp
    qed
    from r first below show ?thesis
      by blast
  qed
  with c show ?thesis
    by blast
qed

theorem aggregated_fee_invariant_witness:
  "currentHeight (emptyContext []) = - 1 \<and> blocks (db (emptyContext [])) = [] \<and>
   insert_fault (db (emptyContext [])) = None \<and>
   contiguous (- 1) (take 2 chainA) \<and> linked (take 2 chainA) \<and>
   list_all (\<lambda>b. list_all (\<lambda>t. fixed8 (t_systemFee t)) (b_transactions b)) (take 2 chainA) \<and>
   map systemFee_of (take 2 chainA) = [3 / 4, 2] \<and>
   (\<exists>ctx' r. saveAll (emptyContext []) (take 2 chainA) = Inr ctx' \<and>
      findById (db ctx') 1 = Some r \<and> m_system_fee r = 2 \<and> m_aggregated_system_fee r = 11 / 4)"
proof -
  have h: "currentHeight (emptyContext []) = - 1" "blocks (db (emptyContext [])) = []"
    "insert_fault (db (emptyContext [])) = None"
    "contiguous (- 1) (take 2 chainA)" "linked (take 2 chainA)"
    "\<forall>b \<in> set (take 2 chainA). \<forall>t \<in> set (b_transactions b). fixed8 (t_systemFee t)"
    by (simp_all add: example_defs fixed8_def)
  have fees: "map systemFee_of (take 2 chainA) = [3 / 4, 2]"
    by (simp add: example_defs systemFee_of_def)
  have len: "(1::nat) < length (take 2 chainA)"
    by (simp add: chainA_def)
  from aggregated_fee_invariant [OF h]
  obtain ctx' where c: "saveAll (emptyContext []) (take 2 chainA) = Inr ctx'"
    and rows: "\<forall>n < length (take 2 chainA). \<exists>r.
              findById (db ctx') (int n) = Some r \<and>
              m_system_fee r = systemFee_of (take 2 chainA ! n) \<and>
              m_aggregated_system_fee r = (\<Sum>i\<le>n. systemFee_of (take 2 chainA ! i)) \<and>
              (n = 0 \<longrightarrow> m_aggregated_system_fee r = m_system_fee r) \<and>
              (\<forall>k. n = Suc k \<longrightarrow>
                 (\<exists>q. findById (db ctx') (int k) = Some q \<and>
                      m_aggregated_system_fee r = m_aggregated_system_fee q + m_system_fee r))"
    by (elim exE conjE)
  from rows [rule_format, OF len]
  obtain r where r: "findById (db ctx') (int 1) = Some r"
    "m_system_fee r = systemFee_of (take 2 chainA ! 1)"
    "m_aggregated_system_fee r = (\<Sum>i\<le>1. systemFee_of (take 2 chainA ! i))"
    by (elim exE conjE)
  have v: "systemFee_of (take 2 chainA ! 1) = 2"
    "(\<Sum>i\<le>(1::nat). systemFee_of (take 2 chainA ! i)) = 11 / 4"
    by (simp_all add: example_defs systemFee_of_def)
  from r v have "findById (db ctx') 1 = Some r \<and> m_system_fee r = 2 \<and>
             m_aggregated_system_fee r = 11 / 4"
    by simp
  with c have ex: "\<exists>ctx' r. saveAll (emptyContext []) (take 2 chainA) = Inr ctx' \<and>
      findById (db ctx') 1 = Some r \<and> m_system_fee r = 2 \<and> m_aggregated_system_fee r = 11 / 4"
    by (intro exI [of _ ctx'] exI [of _ r] conjI) simp_all
  have fx: "list_all (\<lambda>b. list_all (\<lambda>t. fixed8 (t_systemFee t)) (b_transactions b)) (take 2 chainA)"
    using h(6) by (simp add: list_all_iff)
  show ?thesis
    by (intro conjI) (rule h(1-5) fx fees ex)+
qed


section \<open>Asset and contract extraction: claims\<close>

lemmas extraction_defs = exampleHost_def tokenClient_def tokenContext_def mkContract_def
  tokenScript_def noTransferScript_def mkTransaction_def gas_def emptyContext_def mkClient_def

lemma includes_str_sublist: "includes_str s a \<longleftrightarrow> sublist a s"
  by (induction s) (auto simp: sublist_Cons_right)

lemma NEP5_ATTRIBUTES_hex:
  "NEP5_ATTRIBUTES =
     [''746f74616c537570706c79'', ''6e616d65'', ''73796d626f6c'', ''646563696d616c73'',
      ''62616c616e63654f66'', ''7472616e73666572'']"
  by (simp add: NEP5_ATTRIBUTES_def toHex_def hexDigit_def)

lemma checkIsNEP5_iff:
  "checkIsNEP5 ctx c \<longleftrightarrow>
     c_hash c \<notin> blacklistNEP5Hashes ctx \<and>
     (\<forall>m \<in> set [''totalSupply'', ''name'', ''symbol'', ''decimals'', ''balanceOf'', ''transfer''].
        sublist (toHex m) (c_script c))"
  by (simp add: checkIsNEP5_def NEP5_ATTRIBUTES_def includes_str_sublist)

lemma checkIsNEP5_examples:
  "checkIsNEP5 (tokenContext supply {}) (mkContract ''c1'' tokenScript)"
  "\<not> checkIsNEP5 (tokenContext supply {''c1''}) (mkContract ''c1'' tokenScript)"
  "\<not> checkIsNEP5 (tokenContext supply {}) (mkContract ''c2'' noTransferScript)"
  by (simp_all add: checkIsNEP5_def NEP5_ATTRIBUTES_hex extraction_defs)

text \<open>
  Claim C5. A contract is classified as a token contract exactly when its hash is not in
  the blacklist and its script contains, as contiguous runs, the hexadecimal encodings
  of the six method names. Whenever the extraction returns, a classified contract has
  the tag \<^verbatim>\<open>NEP5_CONTRACT_TYPE\<close> and an asset row of type \<^verbatim>\<open>'NEP5'\<close>, and any other contract
  has the tag \<^verbatim>\<open>UNKNOWN_CONTRACT_TYPE\<close> and no asset row. The extraction of an unclassified
  contract always returns; that of a classified one returns when the interface, name,
  symbol and decimals queries succeed.
\<close>

theorem nep5_classification:
  "(checkIsNEP5 ctx c \<longleftrightarrow>
      c_hash c \<notin> blacklistNEP5Hashes ctx \<and>
      (\<forall>m \<in> set [''totalSupply'', ''name'', ''symbol'', ''decimals'', ''balanceOf'', ''transfer''].
         sublist (toHex m) (c_script c))) \<and>
   (\<forall>x. getContractAndAsset h ctx tx c bi bt = Inr x \<longrightarrow>
      (if checkIsNEP5 ctx c
       then cm_type (x_contract x) = NEP5_CONTRACT_TYPE \<and>
            (\<exists>a. x_asset x = Some a \<and> am_type a = ''NEP5'')
       else cm_type (x_contract x) = UNKNOWN_CONTRACT_TYPE \<and> x_asset x = None)) \<and>
   (\<not> checkIsNEP5 ctx c \<longrightarrow> (\<exists>x. getContractAndAsset h ctx tx c bi bt = Inr x)) \<and>
   (checkIsNEP5 ctx c \<and>
    abi_NEP5 (client ctx) (add0x h (c_hash c)) = Inr abi \<and>
    nep5_name (client ctx) (add0x h (c_hash c)) = Inr name \<and>
    nep5_symbol (client ctx) (add0x h (c_hash c)) = Inr symbol \<and>
    nep5_decimals (client ctx) (add0x h (c_hash c)) = Inr decimals
      \<longrightarrow> (\<exists>x. getContractAndAsset h ctx tx c bi bt = Inr x))"
proof (intro conjI allI impI)
  show "checkIsNEP5 ctx c \<longleftrightarrow>
      c_hash c \<notin> blacklistNEP5Hashes ctx \<and>
      (\<forall>m \<in> set [''totalSupply'', ''name'', ''symbol'', ''decimals'', ''balanceOf'', ''transfer''].
         sublist (toHex m) (c_script c))"
    by (rule checkIsNEP5_iff)
next
  fix x
  assume "getContractAndAsset h ctx tx c bi bt = Inr x"
  then show "if checkIsNEP5 ctx c
       then cm_type (x_contract x) = NEP5_CONTRACT_TYPE \<and>
            (\<exists>a. x_asset x = Some a \<and> am_type a = ''NEP5'')
       else cm_type (x_contract x) = UNKNOWN_CONTRACT_TYPE \<and> x_asset x = None"
    by (auto simp: getContractAndAsset_def Let_def split: if_splits sum.splits)
next
  assume "\<not> checkIsNEP5 ctx c"
  then show "\<exists>x. getContractAndAsset h ctx tx c bi bt = Inr x"
    by (simp add: getContractAndAsset_def Let_def)
next
  assume "checkIsNEP5 ctx c \<and>
    abi_NEP5 (client ctx) (add0x h (c_hash c)) = Inr abi \<and>
    nep5_name (client ctx) (add0x h (c_hash c)) = Inr name \<and>
    nep5_symbol (client ctx) (add0x h (c_hash c)) = Inr symbol \<and>
    nep5_decimals (client ctx) (add0x h (c_hash c)) = Inr decimals"
  then show "\<exists>x. getContractAndAsset h ctx tx c bi bt = Inr x"
    by (simp add: getContractAndAsset_def Let_def)
qed

theorem nep5_classification_witness:
  "checkIsNEP5 (tokenContext (Inr 1000) {}) (mkContract ''c1'' tokenScript) \<and>
   (\<exists>x a. getContractAndAsset exampleHost (tokenContext (Inr 1000) {})
             (mkTransaction (PublishTransaction (mkContract ''c1'' tokenScript)))
             (mkContract ''c1'' tokenScript) 7 1500 = Inr x \<and>
          cm_type (x_contract x) = NEP5_CONTRACT_TYPE \<and>
          x_asset x = Some a \<and> am_type a = ''NEP5'') \<and>
   \<not> checkIsNEP5 (tokenContext (Inr 1000) {''c1''}) (mkContract ''c1'' tokenScript) \<and>
   (\<exists>x. getContractAndAsset exampleHost (tokenContext (Inr 1000) {''c1''})
           (mkTransaction (PublishTransaction (mkContract ''c1'' tokenScript)))
           (mkContract ''c1'' tokenScript) 7 1500 = Inr x \<and>
        cm_type (x_contract x) = UNKNOWN_CONTRACT_TYPE \<and> x_asset x = None) \<and>
   \<not> checkIsNEP5 (tokenContext (Inr 1000) {}) (mkContract ''c2'' noTransferScript) \<and>
   (\<exists>x. getContractAndAsset exampleHost (tokenContext (Inr 1000) {})
           (mkTransaction (PublishTransaction (mkContract ''c2'' noTransferScript)))
           (mkContract ''c2'' noTransferScript) 7 1500 = Inr x \<and>
        cm_type (x_contract x) = UNKNOWN_CONTRACT_TYPE \<and> x_asset x = None)"
proof -
  let ?ok = "tokenContext (Inr 1000) {}"
  let ?bl = "tokenContext (Inr 1000) {''c1''}"
  let ?c1 = "mkContract ''c1'' tokenScript"
  let ?c2 = "mkContract ''c2'' noTransferScript"
  let ?t1 = "mkTransaction (PublishTransaction ?c1)"
  let ?t2 = "mkTransaction (PublishTransaction ?c2)"
  note k1 = checkIsNEP5_examples(1) [of "Inr 1000"]
  note k2 = checkIsNEP5_examples(2) [of "Inr 1000"]
  note k3 = checkIsNEP5_examples(3) [of "Inr 1000"]
  have q: "abi_NEP5 (client ?ok) (add0x exampleHost (c_hash ?c1)) = Inr ''NEP5''"
    "nep5_name (client ?ok) (add0x exampleHost (c_hash ?c1)) = Inr ''Token''"
    "nep5_symbol (client ?ok) (add0x exampleHost (c_hash ?c1)) = Inr ''TKN''"
    "nep5_decimals (client ?ok) (add0x exampleHost (c_hash ?c1)) = Inr 8"
    by (simp_all add: extraction_defs)
  note n1 = nep5_classification [of ?ok ?c1 exampleHost ?t1 7 1500 "''NEP5''" "''Token''" "''TKN''" 8]
  note n2 = nep5_classification [of ?bl ?c1 exampleHost ?t1 7 1500 "''NEP5''" "''Token''" "''TKN''" 8]
  note n3 = nep5_classification [of ?ok ?c2 exampleHost ?t2 7 1500 "''NEP5''" "''Token''" "''TKN''" 8]
  from n1 k1 q obtain x1 where x1: "getContractAndAsset exampleHost ?ok ?t1 ?c1 7 1500 = Inr x1"
    by blast
  with n1 k1 have e1: "\<exists>x a. getContractAndAsset exampleHost ?ok ?t1 ?c1 7 1500 = Inr x \<and>
          cm_type (x_contract x) = NEP5_CONTRACT_TYPE \<and> x_asset x = Some a \<and> am_type a = ''NEP5''"
    by (metis (full_types))
  from n2 k2 obtain x2 where x2: "getContractAndAsset exampleHost ?bl ?t1 ?c1 7 1500 = Inr x2"
    by blast
  with n2 k2 have e2: "\<exists>x. getContractAndAsset exampleHost ?bl ?t1 ?c1 7 1500 = Inr x \<and>
        cm_type (x_contract x) = UNKNOWN_CONTRACT_TYPE \<and> x_asset x = None"
    by (metis (full_types))
  from n3 k3 obtain x3 where x3: "getContractAndAsset exampleHost ?ok ?t2 ?c2 7 1500 = Inr x3"
    by blast
  with n3 k3 have e3: "\<exists>x. getContractAndAsset exampleHost ?ok ?t2 ?c2 7 1500 = Inr x \<and>
        cm_type (x_contract x) = UNKNOWN_CONTRACT_TYPE \<and> x_asset x = None"
    by (metis (full_types))
  show ?thesis
    by (intro conjI) (rule k1 k2 k3 e1 e2 e3)+
qed

text \<open>
  Claim C6. For a contract classified as a token contract whose interface, name, symbol
  and decimals queries succeed, a failing \<^verbatim>\<open>totalSupply\<close> query raises no error: the
  extraction returns an asset row whose amount is the rendering of zero, \<^verbatim>\<open>"0"\<close>. A
  failure of the name, symbol or decimals query is the result of the extraction.
\<close>

theorem totalSupply_fault_tolerance:
  "(checkIsNEP5 ctx c \<and> toString h 0 = ''0'' \<and>
    abi_NEP5 (client ctx) (add0x h (c_hash c)) = Inr abi \<and>
    nep5_name (client ctx) (add0x h (c_hash c)) = Inr name \<and>
    nep5_symbol (client ctx) (add0x h (c_hash c)) = Inr symbol \<and>
    nep5_decimals (client ctx) (add0x h (c_hash c)) = Inr decimals \<and>
    nep5_totalSupply (client ctx) (add0x h (c_hash c)) = Inl e
      \<longrightarrow> (\<exists>x a. getContractAndAsset h ctx tx c bi bt = Inr x \<and> x_asset x = Some a \<and>
             am_amount a = ''0'')) \<and>
   (checkIsNEP5 ctx c \<and>
    abi_NEP5 (client ctx) (add0x h (c_hash c)) = Inr abi \<and>
    nep5_name (client ctx) (add0x h (c_hash c)) = Inl e
      \<longrightarrow> getContractAndAsset h ctx tx c bi bt = Inl e) \<and>
   (checkIsNEP5 ctx c \<and>
    abi_NEP5 (client ctx) (add0x h (c_hash c)) = Inr abi \<and>
    nep5_name (client ctx) (add0x h (c_hash c)) = Inr name \<and>
    nep5_symbol (client ctx) (add0x h (c_hash c)) = Inl e
      \<longrightarrow> getContractAndAsset h ctx tx c bi bt = Inl e) \<and>
   (checkIsNEP5 ctx c \<and>
    abi_NEP5 (client ctx) (add0x h (c_hash c)) = Inr abi \<and>
    nep5_name (client ctx) (add0x h (c_hash c)) = Inr name \<and>
    nep5_symbol (client ctx) (add0x h (c_hash c)) = Inr symbol \<and>
    nep5_decimals (client ctx) (add0x h (c_hash c)) = Inl e
      \<longrightarrow> getContractAndAsset h ctx tx c bi bt = Inl e)"
  by (simp add: getContractAndAsset_def Let_def)

theorem totalSupply_fault_tolerance_witness:
  "checkIsNEP5 (tokenContext (Inl (ClientError ''totalSupply'')) {}) (mkContract ''c1'' tokenScript) \<and>
   toString exampleHost 0 = ''0'' \<and>
   nep5_totalSupply (client (tokenContext (Inl (ClientError ''totalSupply'')) {}))
     (add0x exampleHost (c_hash (mkContract ''c1'' tokenScript))) = Inl (ClientError ''totalSupply'') \<and>
   (\<exists>x a. getContractAndAsset exampleHost (tokenContext (Inl (ClientError ''totalSupply'')) {})
             (mkTransaction (PublishTransaction (mkContract ''c1'' tokenScript)))
             (mkContract ''c1'' tokenScript) 7 1500 = Inr x \<and>
          x_asset x = Some a \<and> am_amount a = ''0'') \<and>
   getContractAndAsset exampleHost
     ((tokenContext (Inr 1000) {})
        \<lparr>client := (tokenClient (Inr 1000))\<lparr>nep5_name := (\<lambda>h. Inl (ClientError ''name''))\<rparr>\<rparr>)
     (mkTransaction (PublishTransaction (mkContract ''c1'' tokenScript)))
     (mkContract ''c1'' tokenScript) 7 1500 = Inl (ClientError ''name'') \<and>
   getContractAndAsset exampleHost
     ((tokenContext (Inr 1000) {})
        \<lparr>client := (tokenClient (Inr 1000))\<lparr>nep5_symbol := (\<lambda>h. Inl (ClientError ''symbol''))\<rparr>\<rparr>)
     (mkTransaction (PublishTransaction (mkContract ''c1'' tokenScript)))
     (mkContract ''c1'' tokenScript) 7 1500 = Inl (ClientError ''symbol'') \<and>
   getContractAndAsset exampleHost
     ((tokenContext (Inr 1000) {})
        \<lparr>client := (tokenClient (Inr 1000))\<lparr>nep5_decimals := (\<lambda>h. Inl (ClientError ''decimals''))\<rparr>\<rparr>)
     (mkTransaction (PublishTransaction (mkContract ''c1'' tokenScript)))
     (mkContract ''c1'' tokenScript) 7 1500 = Inl (ClientError ''decimals'')"
proof -
  let ?ts = "tokenContext (Inl (ClientError ''totalSupply'')) {}"
  let ?nm = "(tokenContext (Inr 1000) {})
        \<lparr>client := (tokenClient (Inr 1000))\<lparr>nep5_name := (\<lambda>h. Inl (ClientError ''name''))\<rparr>\<rparr>"
  let ?sy = "(tokenContext (Inr 1000) {})
        \<lparr>client := (tokenClient (Inr 1000))\<lparr>nep5_symbol := (\<lambda>h. Inl (ClientError ''symbol''))\<rparr>\<rparr>"
  let ?de = "(tokenContext (Inr 1000) {})
        \<lparr>client := (tokenClient (Inr 1000))\<lparr>nep5_decimals := (\<lambda>h. Inl (ClientError ''decimals''))\<rparr>\<rparr>"
  let ?c1 = "mkContract ''c1'' tokenScript"
  let ?t1 = "mkTransaction (PublishTransaction ?c1)"
  let ?k = "add0x exampleHost (c_hash ?c1)"
  have cls: "checkIsNEP5 ?ts ?c1" "checkIsNEP5 ?nm ?c1" "checkIsNEP5 ?sy ?c1" "checkIsNEP5 ?de ?c1"
    by (simp_all add: checkIsNEP5_def NEP5_ATTRIBUTES_hex extraction_defs)
  have zero: "toString exampleHost 0 = ''0''"
    by (simp add: exampleHost_def)
  have qs: "abi_NEP5 (client ?ts) ?k = Inr ''NEP5''" "nep5_name (client ?ts) ?k = Inr ''Token''"
    "nep5_symbol (client ?ts) ?k = Inr ''TKN''" "nep5_decimals (client ?ts) ?k = Inr 8"
    "nep5_totalSupply (client ?ts) ?k = Inl (ClientError ''totalSupply'')"
    by (simp_all add: extraction_defs)
  have qn: "abi_NEP5 (client ?nm) ?k = Inr ''NEP5''"
    "nep5_name (client ?nm) ?k = Inl (ClientError ''name'')"
    by (simp_all add: extraction_defs)
  have qy: "abi_NEP5 (client ?sy) ?k = Inr ''NEP5''" "nep5_name (client ?sy) ?k = Inr ''Token''"
    "nep5_symbol (client ?sy) ?k = Inl (ClientError ''symbol'')"
    by (simp_all add: extraction_defs)
  have qd: "abi_NEP5 (client ?de) ?k = Inr ''NEP5''" "nep5_name (client ?de) ?k = Inr ''Token''"
    "nep5_symbol (client ?de) ?k = Inr ''TKN''"
    "nep5_decimals (client ?de) ?k = Inl (ClientError ''decimals'')"
    by (simp_all add: extraction_defs)
  have e1: "\<exists>x a. getContractAndAsset exampleHost ?ts ?t1 ?c1 7 1500 = Inr x \<and>
          x_asset x = Some a \<and> am_amount a = ''0''"
    using totalSupply_fault_tolerance
      [of ?ts ?c1 exampleHost "''NEP5''" "''Token''" "''TKN''" 8 "ClientError ''totalSupply''" ?t1 7 1500]
      cls(1) zero qs by blast
  have e2: "getContractAndAsset exampleHost ?nm ?t1 ?c1 7 1500 = Inl (ClientError ''name'')"
    using totalSupply_fault_tolerance
      [of ?nm ?c1 exampleHost "''NEP5''" "''Token''" "''TKN''" 8 "ClientError ''name''" ?t1 7 1500]
      cls(2) qn by blast
  have e3: "getContractAndAsset exampleHost ?sy ?t1 ?c1 7 1500 = Inl (ClientError ''symbol'')"
    using totalSupply_fault_tolerance
      [of ?sy ?c1 exampleHost "''NEP5''" "''Token''" "''TKN''" 8 "ClientError ''symbol''" ?t1 7 1500]
      cls(3) qy by blast
  have e4: "getContractAndAsset exampleHost ?de ?t1 ?c1 7 1500 = Inl (ClientError ''decimals'')"
    using totalSupply_fault_tolerance
      [of ?de ?c1 exampleHost "''NEP5''" "''Token''" "''TKN''" 8 "ClientError ''decimals''" ?t1 7 1500]
      cls(4) qd by blast
  show ?thesis
    by (intro conjI) (rule cls(1) zero qs(5) e1 e2 e3 e4)+
qed

text \<open>
  Claim C10. An asset row made by \<^verbatim>\<open>getAsset\<close> comes from the asset descriptor of a
  registration or of an invocation, and its symbol is \<^verbatim>\<open>JSON.stringify\<close> of the
  descriptor's name, the same value as \<^verbatim>\<open>name_raw\<close>. An asset row made for a token
  contract stores the symbol the query returned, as it is, while its \<^verbatim>\<open>name_raw\<close> is
  \<^verbatim>\<open>JSON.stringify\<close> of the queried name.
\<close>

theorem asset_symbol_source:
  "(getAsset h tx bt = Some a \<longrightarrow>
      (\<exists>d. (t_type tx = RegisterTransaction d \<or> (\<exists>cs. t_type tx = InvocationTransaction (Some d) cs)) \<and>
           am_symbol a = JSON_stringify h (a_name d) \<and>
           am_name_raw a = JSON_stringify h (a_name d) \<and>
           am_symbol a = am_name_raw a)) \<and>
   (getContractAndAsset h ctx tx c bi bt = Inr x \<and> x_asset x = Some a' \<longrightarrow>
      (\<exists>name symbol.
          nep5_name (client ctx) (add0x h (c_hash c)) = Inr name \<and>
          nep5_symbol (client ctx) (add0x h (c_hash c)) = Inr symbol \<and>
          am_symbol a' = symbol \<and>
          am_name_raw a' = JSON_stringify h name))"
  by (auto simp: getAsset_def getContractAndAsset_def Let_def
           split: tx_type.splits option.splits if_splits sum.splits)

theorem asset_symbol_source_witness:
  "(\<exists>a. getAsset exampleHost (mkTransaction (RegisterTransaction gas)) 1500 = Some a \<and>
        am_symbol a = [CHR 0x22] @ ''GAS'' @ [CHR 0x22] \<and> am_symbol a = am_name_raw a) \<and>
   (\<exists>a. getAsset exampleHost (mkTransaction (InvocationTransaction (Some gas) [])) 1500 = Some a \<and>
        am_symbol a = [CHR 0x22] @ ''GAS'' @ [CHR 0x22] \<and> am_symbol a = am_name_raw a) \<and>
   (\<exists>x a. getContractAndAsset exampleHost (tokenContext (Inr 1000) {})
             (mkTransaction (PublishTransaction (mkContract ''c1'' tokenScript)))
             (mkContract ''c1'' tokenScript) 7 1500 = Inr x \<and>
          x_asset x = Some a \<and> am_symbol a = ''TKN'' \<and>
          am_name_raw a = [CHR 0x22] @ ''Token'' @ [CHR 0x22])"
proof -
  let ?ok = "tokenContext (Inr 1000) {}"
  let ?c1 = "mkContract ''c1'' tokenScript"
  let ?t1 = "mkTransaction (PublishTransaction ?c1)"
  let ?r = "mkTransaction (RegisterTransaction gas)"
  let ?i = "mkTransaction (InvocationTransaction (Some gas) [])"
  obtain a1 where a1: "getAsset exampleHost ?r 1500 = Some a1"
    by (simp add: getAsset_def extraction_defs)
  obtain a2 where a2: "getAsset exampleHost ?i 1500 = Some a2"
    by (simp add: getAsset_def extraction_defs)
  have cls: "checkIsNEP5 ?ok ?c1"
    by (rule checkIsNEP5_examples(1))
  obtain x a3 where x: "getContractAndAsset exampleHost ?ok ?t1 ?c1 7 1500 = Inr x"
    "x_asset x = Some a3"
    using cls by (simp add: getContractAndAsset_def Let_def extraction_defs)
  have n: "a_name gas = ''GAS''" "JSON_stringify exampleHost s = [CHR 0x22] @ s @ [CHR 0x22]" for s
    by (simp_all add: extraction_defs)
  have q: "nep5_name (client ?ok) (add0x exampleHost (c_hash ?c1)) = Inr ''Token''"
    "nep5_symbol (client ?ok) (add0x exampleHost (c_hash ?c1)) = Inr ''TKN''"
    by (simp_all add: extraction_defs)
  have t: "t_type ?r = RegisterTransaction gas" "t_type ?i = InvocationTransaction (Some gas) []"
    by (simp_all add: mkTransaction_def)
  have e1: "am_symbol a1 = [CHR 0x22] @ ''GAS'' @ [CHR 0x22] \<and> am_symbol a1 = am_name_raw a1"
    using asset_symbol_source [of exampleHost ?r 1500 a1 ?ok ?c1 7 x a3] a1 t n
    by auto
  have e2: "am_symbol a2 = [CHR 0x22] @ ''GAS'' @ [CHR 0x22] \<and> am_symbol a2 = am_name_raw a2"
    using asset_symbol_source [of exampleHost ?i 1500 a2 ?ok ?c1 7 x a3] a2 t n
    by auto
  have e3: "am_symbol a3 = ''TKN'' \<and> am_name_raw a3 = [CHR 0x22] @ ''Token'' @ [CHR 0x22]"
    using asset_symbol_source [of exampleHost ?t1 1500 a1 ?ok ?c1 7 x a3] x q n
    by auto
  from a1 a2 x e1 e2 e3 show ?thesis
    by blast
qed


end
